theory Spec2Isabelle
  imports Complex_Main "HOL-Library.AList" "HOL-Library.Product_Lexorder"
begin

section \<open>Strings\<close>

text \<open>
  A Python \<open>str\<close> is a sequence of Unicode code points.  The key tables of
  \<open>dj_toolkit.py\<close> use the two non-ASCII signs U+266F (sharp) and U+266D (flat), so a
  string is modelled as the list of its code points.  Python's \<open>None\<close> is the
  \<open>None\<close> of an option type.
\<close>

type_synonym ustring = "nat list"

text \<open>
  Key literals are written in an ASCII transliteration that \<open>uni\<close> decodes: \<open>#\<close> stands
  for the sharp sign and \<open>b\<close> for the flat sign; every other character is itself.  (No
  key literal of the source contains \<open>#\<close> or a lower-case \<open>b\<close>.)
\<close>

definition glyph :: "char \<Rightarrow> nat" where
  "glyph c = (if c = CHR ''#'' then 9839 else if c = CHR ''b'' then 9837 else of_char c)"

abbreviation uni :: "string \<Rightarrow> ustring" where
  "uni s \<equiv> map glyph s"

text \<open>The characters that \<open>str.strip()\<close> removes: those for which \<open>str.isspace\<close> holds.\<close>

definition isspace :: "nat \<Rightarrow> bool" where
  "isspace c \<longleftrightarrow>
     (9 \<le> c \<and> c \<le> 13) \<or> (28 \<le> c \<and> c \<le> 32) \<or> c = 133 \<or> c = 160 \<or> c = 5760 \<or>
     (8192 \<le> c \<and> c \<le> 8202) \<or> c = 8232 \<or> c = 8233 \<or> c = 8239 \<or> c = 8287 \<or> c = 12288"

definition strip :: "ustring \<Rightarrow> ustring" where
  "strip s = rev (dropWhile isspace (rev (dropWhile isspace s)))"

section \<open>KeyModel: the tables of \<open>init_harmonic_compatibility\<close>\<close>

text \<open>
  A dict literal is the association list of its entries in source order; \<open>map_of\<close> is
  the lookup (the keys of each literal are distinct, see \<open>distinct_table_keys\<close>).
\<close>

definition harmonic_compatibility :: "(ustring \<times> ustring list) list" where
  "harmonic_compatibility = [
    (uni ''C'', [uni ''C'', uni ''F'', uni ''G'', uni ''Am'', uni ''Dm'', uni ''Em'']),
    (uni ''C#'', [uni ''C#'', uni ''F#'', uni ''G#'', uni ''A#m'', uni ''D#m'', uni ''E#m'']),
    (uni ''Db'', [uni ''Db'', uni ''Gb'', uni ''Ab'', uni ''Bbm'', uni ''Ebm'', uni ''Fm'']),
    (uni ''D'', [uni ''D'', uni ''G'', uni ''A'', uni ''Bm'', uni ''Em'', uni ''F#m'']),
    (uni ''Eb'', [uni ''Eb'', uni ''Ab'', uni ''Bb'', uni ''Cm'', uni ''Fm'', uni ''Gm'']),
    (uni ''E'', [uni ''E'', uni ''A'', uni ''B'', uni ''C#m'', uni ''F#m'', uni ''G#m'']),
    (uni ''F'', [uni ''F'', uni ''Bb'', uni ''C'', uni ''Dm'', uni ''Gm'', uni ''Am'']),
    (uni ''F#'', [uni ''F#'', uni ''B'', uni ''C#'', uni ''D#m'', uni ''G#m'', uni ''A#m'']),
    (uni ''Gb'', [uni ''Gb'', uni ''B'', uni ''Db'', uni ''Ebm'', uni ''Abm'', uni ''Bbm'']),
    (uni ''G'', [uni ''G'', uni ''C'', uni ''D'', uni ''Em'', uni ''Am'', uni ''Bm'']),
    (uni ''Ab'', [uni ''Ab'', uni ''Db'', uni ''Eb'', uni ''Fm'', uni ''Bbm'', uni ''Cm'']),
    (uni ''A'', [uni ''A'', uni ''D'', uni ''E'', uni ''F#m'', uni ''Bm'', uni ''C#m'']),
    (uni ''Bb'', [uni ''Bb'', uni ''Eb'', uni ''F'', uni ''Gm'', uni ''Cm'', uni ''Dm'']),
    (uni ''B'', [uni ''B'', uni ''E'', uni ''F#'', uni ''G#m'', uni ''C#m'', uni ''D#m'']),
    (uni ''Am'', [uni ''Am'', uni ''Dm'', uni ''Em'', uni ''C'', uni ''F'', uni ''G'']),
    (uni ''A#m'', [uni ''A#m'', uni ''D#m'', uni ''E#m'', uni ''C#'', uni ''F#'', uni ''G#'']),
    (uni ''Bbm'', [uni ''Bbm'', uni ''Ebm'', uni ''Fm'', uni ''Db'', uni ''Gb'', uni ''Ab'']),
    (uni ''Bm'', [uni ''Bm'', uni ''Em'', uni ''F#m'', uni ''D'', uni ''G'', uni ''A'']),
    (uni ''Cm'', [uni ''Cm'', uni ''Fm'', uni ''Gm'', uni ''Eb'', uni ''Ab'', uni ''Bb'']),
    (uni ''C#m'', [uni ''C#m'', uni ''F#m'', uni ''G#m'', uni ''E'', uni ''A'', uni ''B'']),
    (uni ''Dm'', [uni ''Dm'', uni ''Gm'', uni ''Am'', uni ''F'', uni ''Bb'', uni ''C'']),
    (uni ''D#m'', [uni ''D#m'', uni ''G#m'', uni ''A#m'', uni ''F#'', uni ''B'', uni ''C#'']),
    (uni ''Ebm'', [uni ''Ebm'', uni ''Abm'', uni ''Bbm'', uni ''Gb'', uni ''B'', uni ''Db'']),
    (uni ''Em'', [uni ''Em'', uni ''Am'', uni ''Bm'', uni ''G'', uni ''C'', uni ''D'']),
    (uni ''Fm'', [uni ''Fm'', uni ''Bbm'', uni ''Cm'', uni ''Ab'', uni ''Db'', uni ''Eb'']),
    (uni ''F#m'', [uni ''F#m'', uni ''Bm'', uni ''C#m'', uni ''A'', uni ''D'', uni ''E'']),
    (uni ''Gm'', [uni ''Gm'', uni ''Cm'', uni ''Dm'', uni ''Bb'', uni ''Eb'', uni ''F'']),
    (uni ''G#m'', [uni ''G#m'', uni ''C#m'', uni ''D#m'', uni ''B'', uni ''E'', uni ''F#''])
  ]"

definition camelot_mapping :: "(ustring \<times> ustring) list" where
  "camelot_mapping = [
    (uni ''C'', uni ''8B''),
    (uni ''Db'', uni ''3B''),
    (uni ''D'', uni ''10B''),
    (uni ''Eb'', uni ''5B''),
    (uni ''E'', uni ''12B''),
    (uni ''F'', uni ''7B''),
    (uni ''F#'', uni ''2B''),
    (uni ''Gb'', uni ''2B''),
    (uni ''G'', uni ''9B''),
    (uni ''Ab'', uni ''4B''),
    (uni ''A'', uni ''11B''),
    (uni ''Bb'', uni ''6B''),
    (uni ''B'', uni ''1B''),
    (uni ''Am'', uni ''8A''),
    (uni ''Bbm'', uni ''3A''),
    (uni ''Bm'', uni ''10A''),
    (uni ''Cm'', uni ''5A''),
    (uni ''C#m'', uni ''12A''),
    (uni ''Dm'', uni ''7A''),
    (uni ''D#m'', uni ''2A''),
    (uni ''Ebm'', uni ''2A''),
    (uni ''Em'', uni ''9A''),
    (uni ''Fm'', uni ''4A''),
    (uni ''F#m'', uni ''11A''),
    (uni ''Gm'', uni ''6A''),
    (uni ''G#m'', uni ''1A'')
  ]"

definition alternative_notations :: "(ustring \<times> ustring) list" where
  "alternative_notations = [
    (uni ''8B (C)'', uni ''C''),
    (uni ''3B (Db)'', uni ''Db''),
    (uni ''10B (D)'', uni ''D''),
    (uni ''5B (Eb)'', uni ''Eb''),
    (uni ''12B (E)'', uni ''E''),
    (uni ''7B (F)'', uni ''F''),
    (uni ''2B (F#/Gb)'', uni ''F#''),
    (uni ''9B (G)'', uni ''G''),
    (uni ''4B (Ab)'', uni ''Ab''),
    (uni ''11B (A)'', uni ''A''),
    (uni ''6B (Bb)'', uni ''Bb''),
    (uni ''1B (B)'', uni ''B''),
    (uni ''8A (Am)'', uni ''Am''),
    (uni ''3A (Bbm)'', uni ''Bbm''),
    (uni ''10A (Bm)'', uni ''Bm''),
    (uni ''5A (Cm)'', uni ''Cm''),
    (uni ''12A (C#m)'', uni ''C#m''),
    (uni ''7A (Dm)'', uni ''Dm''),
    (uni ''2A (D#m/Ebm)'', uni ''D#m''),
    (uni ''9A (Em)'', uni ''Em''),
    (uni ''4A (Fm)'', uni ''Fm''),
    (uni ''11A (F#m)'', uni ''F#m''),
    (uni ''6A (Gm)'', uni ''Gm''),
    (uni ''1A (G#m)'', uni ''G#m'')
  ]"

text \<open>
  \<open>{v: k for k, v in camelot_mapping.items()}\<close> inserts the pairs in the order of
  \<open>camelot_mapping\<close>: a later pair with the same Camelot code replaces the value of the
  earlier one.  \<open>AList.update\<close> is this insertion; \<open>dict.update\<close> repeats it for the
  alternative notations.
\<close>

definition camelot_to_traditional :: "(ustring \<times> ustring) list" where
  "camelot_to_traditional =
     fold (\<lambda>(k, v). AList.update k v) alternative_notations
       (fold (\<lambda>(k, v). AList.update v k) camelot_mapping [])"

section \<open>KeyModel: \<open>normalize_key\<close> and \<open>get_all_compatible_keys\<close>\<close>

definition normalize_key :: "ustring option \<Rightarrow> ustring option" where
  "normalize_key key =
     (case key of
        None \<Rightarrow> None
      | Some k0 \<Rightarrow>
          if k0 = [] then None
          else let k = strip k0 in
            if k = uni ''D#m/Ebm'' then Some (uni ''D#m'')
            else if k = uni ''F#/Gb'' then Some (uni ''F#'')
            else (case map_of camelot_to_traditional k of
                    Some t \<Rightarrow> Some t
                  | None \<Rightarrow> Some k))"

text \<open>
  A Python \<open>set\<close> of strings is modelled as a duplicate-free list in insertion order.
  The order in which Python lists a set is unspecified; nothing below depends on it
  except through \<open>set\<close>.
\<close>

definition set_add :: "'a \<Rightarrow> 'a list \<Rightarrow> 'a list" where
  "set_add x s = (if x \<in> set s then s else s @ [x])"

definition add_camelot :: "ustring \<Rightarrow> ustring list \<Rightarrow> ustring list" where
  "add_camelot trad_key all_compatible =
     (case map_of camelot_mapping trad_key of
        None \<Rightarrow> all_compatible
      | Some camelot_key \<Rightarrow>
          set_add (camelot_key @ uni '' ('' @ trad_key @ uni '')'')
            (set_add camelot_key all_compatible))"

definition add_alternative :: "ustring \<Rightarrow> ustring list \<Rightarrow> ustring list" where
  "add_alternative key all_compatible =
     (if key = uni ''D#m'' then set_add (uni ''Ebm'') (set_add (uni ''D#m/Ebm'') all_compatible)
      else if key = uni ''F#'' then set_add (uni ''Gb'') (set_add (uni ''F#/Gb'') all_compatible)
      else all_compatible)"

definition get_all_compatible_keys :: "ustring option \<Rightarrow> ustring list" where
  "get_all_compatible_keys input_key =
     (case normalize_key input_key of
        None \<Rightarrow> []
      | Some normalized_key \<Rightarrow>
          if normalized_key = [] then []
          else
            let compatible_traditional =
                  (case map_of harmonic_compatibility normalized_key of
                     Some ks \<Rightarrow> ks
                   | None \<Rightarrow> [normalized_key]);
                all_compatible = fold set_add compatible_traditional [];
                all_compatible = fold add_camelot compatible_traditional all_compatible
            in fold add_alternative all_compatible all_compatible)"

text \<open>
  The 24 canonical keys, one traditional spelling for each Camelot code: the values of
  the table of combined notations.  For the two codes that have two traditional spellings
  this is the sharp one, the spelling that \<open>normalize_key\<close> also returns for \<open>F#/Gb\<close>
  and \<open>D#m/Ebm\<close>.
\<close>

definition canonical_keys :: "ustring list" where
  "canonical_keys = map snd alternative_notations"


section \<open>CompatibilityQuery: \<open>get_compatible_tracks\<close> and the tier of a result\<close>

text \<open>
  A row of the external \<open>library\<close> table, with the columns the query selects and tests.
  Every column is nullable.  The \<open>REAL\<close> columns are modelled as real numbers.
\<close>

record library_row =
  artist :: "ustring option"
  title :: "ustring option"
  album :: "ustring option"
  bpm :: "real option"
  key :: "ustring option"
  duration :: "real option"
  location :: "ustring option"
  mixxx_deleted :: "int option"

text \<open>
  The \<open>WHERE\<close> clause.  A comparison with \<open>NULL\<close> is not true in SQL, so a row with a
  \<open>NULL\<close> tempo, key or deletion flag is not selected, and a \<open>NULL\<close> among the
  parameters of \<open>IN\<close> matches nothing.
\<close>

definition where_clause :: "real \<Rightarrow> real \<Rightarrow> ustring option list \<Rightarrow> library_row \<Rightarrow> bool" where
  "where_clause bpm_min bpm_max compatible_keys row \<longleftrightarrow>
     (case bpm row of None \<Rightarrow> False | Some b \<Rightarrow> bpm_min \<le> b \<and> b \<le> bpm_max) \<and>
     (case key row of None \<Rightarrow> False | Some k \<Rightarrow> Some k \<in> set compatible_keys) \<and>
     mixxx_deleted row = Some 0"

text \<open>
  The two \<open>ORDER BY\<close> terms: \<open>CASE WHEN key = ? THEN 0 ELSE 1 END\<close>, whose parameter is
  \<open>current_key\<close> as the caller passed it, and \<open>ABS(bpm - ?)\<close>.
\<close>

definition key_rank :: "ustring option \<Rightarrow> library_row \<Rightarrow> nat" where
  "key_rank current_key row =
     (if key row \<noteq> None \<and> current_key \<noteq> None \<and> key row = current_key then 0 else 1)"

definition bpm_distance :: "real \<Rightarrow> library_row \<Rightarrow> real" where
  "bpm_distance current_bpm row = (case bpm row of None \<Rightarrow> 0 | Some b \<Rightarrow> \<bar>b - current_bpm\<bar>)"

definition order_by :: "ustring option \<Rightarrow> real \<Rightarrow> library_row \<Rightarrow> nat \<times> real" where
  "order_by current_key current_bpm row = (key_rank current_key row, bpm_distance current_bpm row)"

text \<open>
  The catalog is \<open>None\<close> when the database file does not exist or the query raises: both
  paths return the empty list.  SQLite leaves the order of rows with equal sort terms
  open; the model keeps them in table order (\<open>sort_key\<close> is stable).
\<close>

definition get_compatible_tracks ::
  "library_row list option \<Rightarrow> real \<Rightarrow> ustring option \<Rightarrow> real \<Rightarrow> library_row list" where
  "get_compatible_tracks library current_bpm current_key bpm_tolerance =
     (case library of
        None \<Rightarrow> []
      | Some rows \<Rightarrow>
          let compatible_keys = get_all_compatible_keys current_key;
              compatible_keys =
                (if compatible_keys = [] then [current_key] else map Some compatible_keys);
              bpm_min = current_bpm - bpm_tolerance;
              bpm_max = current_bpm + bpm_tolerance
          in take 50
               (sort_key (order_by current_key current_bpm)
                  (filter (where_clause bpm_min bpm_max compatible_keys) rows)))"

datatype tier = Perfect | Good | OK

text \<open>The compatibility level that \<open>find_compatible_tracks\<close> shows for a returned track.\<close>

definition compatibility :: "ustring option \<Rightarrow> ustring option \<Rightarrow> tier" where
  "compatibility current_key track_key =
     (let normalized_current = normalize_key current_key;
          normalized_track = normalize_key track_key
      in if normalized_track = normalized_current then Perfect
         else if (case normalized_track of
                    None \<Rightarrow> False
                  | Some t \<Rightarrow> t \<in> set (get_all_compatible_keys normalized_current))
         then Good
         else OK)"

section \<open>ContentFingerprint: \<open>get_file_hash\<close>\<close>

text \<open>
  A file is the list of its bytes, or \<open>None\<close> when \<open>open\<close> raises.  \<open>md5\<close> is the
  digest function of \<open>hashlib\<close>, taken as a parameter: two \<open>update\<close> calls digest the
  concatenation.  \<open>f.seek(-65536, 2)\<close> raises when the file has fewer than 65536
  bytes, and the bare \<open>except\<close> turns every exception into \<open>None\<close>.
\<close>

definition get_file_hash :: "(char list \<Rightarrow> string) \<Rightarrow> char list option \<Rightarrow> string option" where
  "get_file_hash md5 file =
     (case file of
        None \<Rightarrow> None
      | Some bytes \<Rightarrow>
          let first = take 65536 bytes in
          if length bytes < 65536 then None
          else Some (md5 (first @ take 65536 (drop (length bytes - 65536) bytes))))"

section \<open>LibraryIndexer: \<open>scan_music_library\<close>\<close>

type_synonym path = ustring

text \<open>
  A string can be bound to a parameter of an SQL statement when it can be encoded as
  UTF-8, that is, when it has no surrogate code point (U+D800 to U+DFFF).  The name of a
  file whose bytes are not valid UTF-8 is a \<open>str\<close> with such code points, and
  \<open>sqlite3\<close> raises when it is asked to bind it.
\<close>

definition encodable :: "ustring \<Rightarrow> bool" where
  "encodable s \<longleftrightarrow> list_all (\<lambda>c. c < 55296 \<or> 57343 < c) s"

text \<open>
  The dict that \<open>analyze_audio_file\<close> returns.  Its tag values are text of the probe's
  output, which was decoded strictly; they are given by their UTF-8 bytes, the form in
  which the table stores them, and can always be bound.
\<close>

record analysis =
  an_duration :: real
  an_artist :: "string option"
  an_title :: "string option"
  an_album :: "string option"
  an_genre :: "string option"
  an_bpm :: "real option"
  an_key :: "string option"

text \<open>A row of \<open>scanned_files\<close>, without its path (the unique column the table is keyed by).\<close>

record scanned_file =
  file_hash :: "string option"
  file_size :: nat
  last_modified :: real
  metadata :: analysis

text \<open>
  What a scan reads from outside: \<open>stat\<close> gives size and modification time of a path or
  raises (\<open>None\<close>); \<open>contents\<close> are the bytes \<open>open\<close> gives; \<open>analyze_audio_file\<close> is the
  result of the metadata probe, \<open>None\<close> when it fails or times out.
\<close>

record environment =
  md5 :: "char list \<Rightarrow> string"
  stat :: "path \<Rightarrow> (nat \<times> real) option"
  contents :: "path \<Rightarrow> char list option"
  analyze_audio_file :: "path \<Rightarrow> analysis option"

record scan_state =
  scanned_files :: "path \<rightharpoonup> scanned_file"
  files_found :: nat
  new_files :: nat
  updated_files :: nat

text \<open>
  The body of the loop for one path.  Two statements of the \<open>try\<close> block can raise:
  \<open>stat\<close>, and the \<open>SELECT\<close>, which binds the path and raises when the path is not
  encodable.  Either exception reaches the \<open>except\<close> clause, which prints a message and
  continues with the next path, before any counter has changed.  \<open>get_file_hash\<close> and
  \<open>analyze_audio_file\<close> return \<open>None\<close> instead of raising, and the \<open>INSERT\<close> binds
  the path that the \<open>SELECT\<close> has bound already, together with numbers, the digest and
  the tag values.  The database itself is taken to work, as for the statements outside
  the \<open>try\<close> block.
\<close>

definition scan_file :: "environment \<Rightarrow> path \<Rightarrow> scan_state \<Rightarrow> scan_state" where
  "scan_file env file_path st =
     (case stat env file_path of
        None \<Rightarrow> st
      | Some (fsize, mtime) \<Rightarrow>
          let hash = get_file_hash (md5 env) (contents env file_path) in
          if \<not> encodable file_path then st
          else
            let existing = scanned_files st file_path;
                (st, needs_analysis) =
                  (case existing of
                     None \<Rightarrow> (st\<lparr>new_files := new_files st + 1\<rparr>, True)
                   | Some row \<Rightarrow>
                       if file_hash row \<noteq> hash \<or> last_modified row \<noteq> mtime
                       then (st\<lparr>updated_files := updated_files st + 1\<rparr>, True)
                       else (st, False));
                st =
                  (if needs_analysis then
                     (case analyze_audio_file env file_path of
                        None \<Rightarrow> st
                      | Some a \<Rightarrow>
                          st\<lparr>scanned_files := (scanned_files st)(file_path \<mapsto>
                            \<lparr>file_hash = hash, file_size = fsize, last_modified = mtime,
                             metadata = a\<rparr>)\<rparr>)
                   else st)
            in st\<lparr>files_found := files_found st + 1\<rparr>)"

record scan_session =
  session_files_found :: nat
  session_new_files :: nat
  session_updated_files :: nat
  session_scan_duration :: real

record scanner_db =
  db_scanned_files :: "path \<rightharpoonup> scanned_file"
  db_scan_sessions :: "scan_session list"

text \<open>
  \<open>audio_files\<close> is the list that the directory walk produced, \<open>scan_duration\<close> the
  elapsed time the clock gave.  The result is the returned dict, here the session
  record, together with the database after the commit.  The progress callback only
  updates the interface and is left out.
\<close>

definition scan_loop :: "environment \<Rightarrow> (path \<rightharpoonup> scanned_file) \<Rightarrow> path list \<Rightarrow> scan_state" where
  "scan_loop env table audio_files =
     fold (scan_file env) audio_files
       \<lparr>scanned_files = table, files_found = 0, new_files = 0, updated_files = 0\<rparr>"

definition scan_music_library ::
  "environment \<Rightarrow> real \<Rightarrow> scanner_db \<Rightarrow> path list \<Rightarrow> scan_session \<times> scanner_db" where
  "scan_music_library env scan_duration db audio_files =
     (let st = scan_loop env (db_scanned_files db) audio_files;
          results = \<lparr>session_files_found = files_found st, session_new_files = new_files st,
                     session_updated_files = updated_files st,
                     session_scan_duration = scan_duration\<rparr>
      in (results,
          \<lparr>db_scanned_files = scanned_files st,
           db_scan_sessions = db_scan_sessions db @ [results]\<rparr>))"

text \<open>
  The test the loop makes before any analysis: \<open>stat\<close> and the \<open>SELECT\<close> succeed for the
  path, and it has no row, or a row whose hash or modification time differs.
\<close>

definition needs_analysis :: "environment \<Rightarrow> (path \<rightharpoonup> scanned_file) \<Rightarrow> path \<Rightarrow> bool" where
  "needs_analysis env table file_path \<longleftrightarrow>
     (case stat env file_path of
        None \<Rightarrow> False
      | Some (fsize, mtime) \<Rightarrow>
          encodable file_path \<and>
          (case table file_path of
             None \<Rightarrow> True
           | Some row \<Rightarrow>
               file_hash row \<noteq> get_file_hash (md5 env) (contents env file_path) \<or>
               last_modified row \<noteq> mtime))"


section \<open>Example inputs\<close>

text \<open>
  A small file system for concrete runs: the path \<open>A\<close> is a file of three bytes whose
  contents are \<open>file\<close> (\<open>None\<close> when it cannot be opened), and so is \<open>bad_name\<close>, the
  letter \<open>B\<close> followed by U+DCFF, which Python gives for the file name of the two bytes
  0x42 0xFF; no other path exists.  \<open>stale_db\<close> holds a row for the path \<open>Z\<close>, which is
  not on disk.
\<close>

text \<open>A catalog row that is not deleted, with the given key and tempo.\<close>

definition example_row :: "ustring \<Rightarrow> real \<Rightarrow> library_row" where
  "example_row k b =
     \<lparr>artist = None, title = None, album = None, bpm = Some b, key = Some k,
      duration = None, location = None, mixxx_deleted = Some 0\<rparr>"

definition no_tags :: analysis where
  "no_tags = \<lparr>an_duration = 0, an_artist = None, an_title = None, an_album = None,
     an_genre = None, an_bpm = None, an_key = None\<rparr>"

definition bad_name :: path where
  "bad_name = [66, 56575]"

definition example_env :: "char list option \<Rightarrow> (path \<Rightarrow> analysis option) \<Rightarrow> environment" where
  "example_env file probe =
     \<lparr>md5 = (\<lambda>bytes. ''d41d8cd9''),
      stat = (\<lambda>p. if p = uni ''A'' \<or> p = bad_name then Some (3, 1) else None),
      contents = (\<lambda>p. if p = uni ''A'' \<or> p = bad_name then file else None),
      analyze_audio_file = probe\<rparr>"

definition empty_db :: scanner_db where
  "empty_db = \<lparr>db_scanned_files = Map.empty, db_scan_sessions = []\<rparr>"

definition stale_db :: scanner_db where
  "stale_db =
     \<lparr>db_scanned_files = [uni ''Z'' \<mapsto>
        \<lparr>file_hash = None, file_size = 0, last_modified = 0, metadata = no_tags\<rparr>],
      db_scan_sessions = []\<rparr>"

section \<open>Evaluating the key tables\<close>

text \<open>
  The lemmas of this section let the simplifier run the key model on concrete strings:
  the code points of the characters that occur in keys, and table lookups that compare
  the searched key with one entry at a time.
\<close>

lemma glyph_simps:
  "glyph CHR ''A'' = 65" "glyph CHR ''B'' = 66" "glyph CHR ''C'' = 67" "glyph CHR ''D'' = 68"
  "glyph CHR ''E'' = 69" "glyph CHR ''F'' = 70" "glyph CHR ''G'' = 71" "glyph CHR ''m'' = 109"
  "glyph CHR ''#'' = 9839" "glyph CHR ''b'' = 9837" "glyph CHR '' '' = 32" "glyph CHR ''('' = 40"
  "glyph CHR '')'' = 41" "glyph CHR ''/'' = 47"
  "glyph CHR ''0'' = 48" "glyph CHR ''1'' = 49" "glyph CHR ''2'' = 50" "glyph CHR ''3'' = 51"
  "glyph CHR ''4'' = 52" "glyph CHR ''5'' = 53" "glyph CHR ''6'' = 54" "glyph CHR ''7'' = 55"
  "glyph CHR ''8'' = 56" "glyph CHR ''9'' = 57"
  by (simp_all add: glyph_def)

lemma map_of_weak_cong: "k = k' \<Longrightarrow> map_of al k = map_of al k'"
  by simp

lemma map_of_Cons_if: "map_of ((a, b) # ps) k = (if k = a then Some b else map_of ps k)"
  by simp

text \<open>Inserting pairs one after the other: the pair inserted last decides a lookup.\<close>

lemma map_of_fold_update:
  "map_of (fold (\<lambda>(k, v). AList.update k v) xs al) = map_of (rev xs @ al)"
proof (induction xs arbitrary: al)
  case Nil
  show ?case by simp
next
  case (Cons x xs)
  obtain k v where x: "x = (k, v)" by (cases x)
  have "map_of (fold (\<lambda>(k, v). AList.update k v) (x # xs) al) =
        map_of (rev xs @ AList.update k v al)"
    using Cons.IH [of "AList.update k v al"] by (simp add: x)
  also have "\<dots> = map_of (rev xs @ (k, v) # al)"
    by (simp add: AList.update_conv map_add_def fun_eq_iff split: option.splits)
  finally show ?case by (simp add: x)
qed

lemma fold_update_swap:
  "fold (\<lambda>(k, v). AList.update v k) xs al =
   fold (\<lambda>(k, v). AList.update k v) (map prod.swap xs) al"
  by (induction xs arbitrary: al) (auto simp: case_prod_beta)

lemma camelot_to_traditional_lookup:
  "map_of camelot_to_traditional =
     map_of (rev alternative_notations @ rev (map prod.swap camelot_mapping))"
  by (simp add: camelot_to_traditional_def map_of_fold_update fold_update_swap)

lemmas camelot_mapping_lookup =
  arg_cong [where f = map_of, OF camelot_mapping_def, THEN fun_cong]

lemmas harmonic_compatibility_lookup =
  arg_cong [where f = map_of, OF harmonic_compatibility_def, THEN fun_cong]

lemmas key_eval = normalize_key_def strip_def isspace_def glyph_simps
  camelot_to_traditional_lookup alternative_notations_def camelot_mapping_def map_of_Cons_if

lemmas compat_eval = get_all_compatible_keys_def set_add_def add_camelot_def add_alternative_def
  camelot_mapping_lookup harmonic_compatibility_lookup

lemma distinct_table_keys:
  "distinct (map fst harmonic_compatibility)"
  "distinct (map fst camelot_mapping)"
  "distinct (map fst alternative_notations)"
  by (simp_all add: harmonic_compatibility_def camelot_mapping_def alternative_notations_def
      glyph_simps)

lemma canonical_keys_eq:
  "canonical_keys = [
     uni ''C'', uni ''Db'', uni ''D'', uni ''Eb'', uni ''E'', uni ''F'',
     uni ''F#'', uni ''G'', uni ''Ab'', uni ''A'', uni ''Bb'', uni ''B'',
     uni ''Am'', uni ''Bbm'', uni ''Bm'', uni ''Cm'', uni ''C#m'', uni ''Dm'',
     uni ''D#m'', uni ''Em'', uni ''Fm'', uni ''F#m'', uni ''Gm'', uni ''G#m'']"
  by (simp add: canonical_keys_def alternative_notations_def)

lemma length_canonical_keys: "length canonical_keys = 24 \<and> distinct canonical_keys"
  by (simp add: canonical_keys_eq glyph_simps)

text \<open>The compatible keys of each canonical key, in the order the model inserts them.\<close>

lemma get_all_canonical:
  "get_all_compatible_keys (Some (uni ''C'')) =
     [uni ''C'', uni ''F'', uni ''G'', uni ''Am'', uni ''Dm'', uni ''Em'', uni ''8B'',
      uni ''8B (C)'', uni ''7B'', uni ''7B (F)'', uni ''9B'', uni ''9B (G)'', uni ''8A'',
      uni ''8A (Am)'', uni ''7A'', uni ''7A (Dm)'', uni ''9A'', uni ''9A (Em)'']"
  "get_all_compatible_keys (Some (uni ''Db'')) =
     [uni ''Db'', uni ''Gb'', uni ''Ab'', uni ''Bbm'', uni ''Ebm'', uni ''Fm'', uni ''3B'',
      uni ''3B (Db)'', uni ''2B'', uni ''2B (Gb)'', uni ''4B'', uni ''4B (Ab)'', uni ''3A'',
      uni ''3A (Bbm)'', uni ''2A'', uni ''2A (Ebm)'', uni ''4A'', uni ''4A (Fm)'']"
  "get_all_compatible_keys (Some (uni ''D'')) =
     [uni ''D'', uni ''G'', uni ''A'', uni ''Bm'', uni ''Em'', uni ''F#m'', uni ''10B'',
      uni ''10B (D)'', uni ''9B'', uni ''9B (G)'', uni ''11B'', uni ''11B (A)'', uni ''10A'',
      uni ''10A (Bm)'', uni ''9A'', uni ''9A (Em)'', uni ''11A'', uni ''11A (F#m)'']"
  "get_all_compatible_keys (Some (uni ''Eb'')) =
     [uni ''Eb'', uni ''Ab'', uni ''Bb'', uni ''Cm'', uni ''Fm'', uni ''Gm'', uni ''5B'',
      uni ''5B (Eb)'', uni ''4B'', uni ''4B (Ab)'', uni ''6B'', uni ''6B (Bb)'', uni ''5A'',
      uni ''5A (Cm)'', uni ''4A'', uni ''4A (Fm)'', uni ''6A'', uni ''6A (Gm)'']"
  "get_all_compatible_keys (Some (uni ''E'')) =
     [uni ''E'', uni ''A'', uni ''B'', uni ''C#m'', uni ''F#m'', uni ''G#m'', uni ''12B'',
      uni ''12B (E)'', uni ''11B'', uni ''11B (A)'', uni ''1B'', uni ''1B (B)'', uni ''12A'',
      uni ''12A (C#m)'', uni ''11A'', uni ''11A (F#m)'', uni ''1A'', uni ''1A (G#m)'']"
  "get_all_compatible_keys (Some (uni ''F'')) =
     [uni ''F'', uni ''Bb'', uni ''C'', uni ''Dm'', uni ''Gm'', uni ''Am'', uni ''7B'',
      uni ''7B (F)'', uni ''6B'', uni ''6B (Bb)'', uni ''8B'', uni ''8B (C)'', uni ''7A'',
      uni ''7A (Dm)'', uni ''6A'', uni ''6A (Gm)'', uni ''8A'', uni ''8A (Am)'']"
  "get_all_compatible_keys (Some (uni ''F#'')) =
     [uni ''F#'', uni ''B'', uni ''C#'', uni ''D#m'', uni ''G#m'', uni ''A#m'', uni ''2B'',
      uni ''2B (F#)'', uni ''1B'', uni ''1B (B)'', uni ''2A'', uni ''2A (D#m)'', uni ''1A'',
      uni ''1A (G#m)'', uni ''F#/Gb'', uni ''Gb'', uni ''D#m/Ebm'', uni ''Ebm'']"
  "get_all_compatible_keys (Some (uni ''G'')) =
     [uni ''G'', uni ''C'', uni ''D'', uni ''Em'', uni ''Am'', uni ''Bm'', uni ''9B'',
      uni ''9B (G)'', uni ''8B'', uni ''8B (C)'', uni ''10B'', uni ''10B (D)'', uni ''9A'',
      uni ''9A (Em)'', uni ''8A'', uni ''8A (Am)'', uni ''10A'', uni ''10A (Bm)'']"
  "get_all_compatible_keys (Some (uni ''Ab'')) =
     [uni ''Ab'', uni ''Db'', uni ''Eb'', uni ''Fm'', uni ''Bbm'', uni ''Cm'', uni ''4B'',
      uni ''4B (Ab)'', uni ''3B'', uni ''3B (Db)'', uni ''5B'', uni ''5B (Eb)'', uni ''4A'',
      uni ''4A (Fm)'', uni ''3A'', uni ''3A (Bbm)'', uni ''5A'', uni ''5A (Cm)'']"
  "get_all_compatible_keys (Some (uni ''A'')) =
     [uni ''A'', uni ''D'', uni ''E'', uni ''F#m'', uni ''Bm'', uni ''C#m'', uni ''11B'',
      uni ''11B (A)'', uni ''10B'', uni ''10B (D)'', uni ''12B'', uni ''12B (E)'', uni ''11A'',
      uni ''11A (F#m)'', uni ''10A'', uni ''10A (Bm)'', uni ''12A'', uni ''12A (C#m)'']"
  "get_all_compatible_keys (Some (uni ''Bb'')) =
     [uni ''Bb'', uni ''Eb'', uni ''F'', uni ''Gm'', uni ''Cm'', uni ''Dm'', uni ''6B'',
      uni ''6B (Bb)'', uni ''5B'', uni ''5B (Eb)'', uni ''7B'', uni ''7B (F)'', uni ''6A'',
      uni ''6A (Gm)'', uni ''5A'', uni ''5A (Cm)'', uni ''7A'', uni ''7A (Dm)'']"
  "get_all_compatible_keys (Some (uni ''B'')) =
     [uni ''B'', uni ''E'', uni ''F#'', uni ''G#m'', uni ''C#m'', uni ''D#m'', uni ''1B'',
      uni ''1B (B)'', uni ''12B'', uni ''12B (E)'', uni ''2B'', uni ''2B (F#)'', uni ''1A'',
      uni ''1A (G#m)'', uni ''12A'', uni ''12A (C#m)'', uni ''2A'', uni ''2A (D#m)'',
      uni ''F#/Gb'', uni ''Gb'', uni ''D#m/Ebm'', uni ''Ebm'']"
  "get_all_compatible_keys (Some (uni ''Am'')) =
     [uni ''Am'', uni ''Dm'', uni ''Em'', uni ''C'', uni ''F'', uni ''G'', uni ''8A'',
      uni ''8A (Am)'', uni ''7A'', uni ''7A (Dm)'', uni ''9A'', uni ''9A (Em)'', uni ''8B'',
      uni ''8B (C)'', uni ''7B'', uni ''7B (F)'', uni ''9B'', uni ''9B (G)'']"
  "get_all_compatible_keys (Some (uni ''Bbm'')) =
     [uni ''Bbm'', uni ''Ebm'', uni ''Fm'', uni ''Db'', uni ''Gb'', uni ''Ab'', uni ''3A'',
      uni ''3A (Bbm)'', uni ''2A'', uni ''2A (Ebm)'', uni ''4A'', uni ''4A (Fm)'', uni ''3B'',
      uni ''3B (Db)'', uni ''2B'', uni ''2B (Gb)'', uni ''4B'', uni ''4B (Ab)'']"
  "get_all_compatible_keys (Some (uni ''Bm'')) =
     [uni ''Bm'', uni ''Em'', uni ''F#m'', uni ''D'', uni ''G'', uni ''A'', uni ''10A'',
      uni ''10A (Bm)'', uni ''9A'', uni ''9A (Em)'', uni ''11A'', uni ''11A (F#m)'', uni ''10B'',
      uni ''10B (D)'', uni ''9B'', uni ''9B (G)'', uni ''11B'', uni ''11B (A)'']"
  "get_all_compatible_keys (Some (uni ''Cm'')) =
     [uni ''Cm'', uni ''Fm'', uni ''Gm'', uni ''Eb'', uni ''Ab'', uni ''Bb'', uni ''5A'',
      uni ''5A (Cm)'', uni ''4A'', uni ''4A (Fm)'', uni ''6A'', uni ''6A (Gm)'', uni ''5B'',
      uni ''5B (Eb)'', uni ''4B'', uni ''4B (Ab)'', uni ''6B'', uni ''6B (Bb)'']"
  "get_all_compatible_keys (Some (uni ''C#m'')) =
     [uni ''C#m'', uni ''F#m'', uni ''G#m'', uni ''E'', uni ''A'', uni ''B'', uni ''12A'',
      uni ''12A (C#m)'', uni ''11A'', uni ''11A (F#m)'', uni ''1A'', uni ''1A (G#m)'',
      uni ''12B'', uni ''12B (E)'', uni ''11B'', uni ''11B (A)'', uni ''1B'', uni ''1B (B)'']"
  "get_all_compatible_keys (Some (uni ''Dm'')) =
     [uni ''Dm'', uni ''Gm'', uni ''Am'', uni ''F'', uni ''Bb'', uni ''C'', uni ''7A'',
      uni ''7A (Dm)'', uni ''6A'', uni ''6A (Gm)'', uni ''8A'', uni ''8A (Am)'', uni ''7B'',
      uni ''7B (F)'', uni ''6B'', uni ''6B (Bb)'', uni ''8B'', uni ''8B (C)'']"
  "get_all_compatible_keys (Some (uni ''D#m'')) =
     [uni ''D#m'', uni ''G#m'', uni ''A#m'', uni ''F#'', uni ''B'', uni ''C#'', uni ''2A'',
      uni ''2A (D#m)'', uni ''1A'', uni ''1A (G#m)'', uni ''2B'', uni ''2B (F#)'', uni ''1B'',
      uni ''1B (B)'', uni ''D#m/Ebm'', uni ''Ebm'', uni ''F#/Gb'', uni ''Gb'']"
  "get_all_compatible_keys (Some (uni ''Em'')) =
     [uni ''Em'', uni ''Am'', uni ''Bm'', uni ''G'', uni ''C'', uni ''D'', uni ''9A'',
      uni ''9A (Em)'', uni ''8A'', uni ''8A (Am)'', uni ''10A'', uni ''10A (Bm)'', uni ''9B'',
      uni ''9B (G)'', uni ''8B'', uni ''8B (C)'', uni ''10B'', uni ''10B (D)'']"
  "get_all_compatible_keys (Some (uni ''Fm'')) =
     [uni ''Fm'', uni ''Bbm'', uni ''Cm'', uni ''Ab'', uni ''Db'', uni ''Eb'', uni ''4A'',
      uni ''4A (Fm)'', uni ''3A'', uni ''3A (Bbm)'', uni ''5A'', uni ''5A (Cm)'', uni ''4B'',
      uni ''4B (Ab)'', uni ''3B'', uni ''3B (Db)'', uni ''5B'', uni ''5B (Eb)'']"
  "get_all_compatible_keys (Some (uni ''F#m'')) =
     [uni ''F#m'', uni ''Bm'', uni ''C#m'', uni ''A'', uni ''D'', uni ''E'', uni ''11A'',
      uni ''11A (F#m)'', uni ''10A'', uni ''10A (Bm)'', uni ''12A'', uni ''12A (C#m)'',
      uni ''11B'', uni ''11B (A)'', uni ''10B'', uni ''10B (D)'', uni ''12B'', uni ''12B (E)'']"
  "get_all_compatible_keys (Some (uni ''Gm'')) =
     [uni ''Gm'', uni ''Cm'', uni ''Dm'', uni ''Bb'', uni ''Eb'', uni ''F'', uni ''6A'',
      uni ''6A (Gm)'', uni ''5A'', uni ''5A (Cm)'', uni ''7A'', uni ''7A (Dm)'', uni ''6B'',
      uni ''6B (Bb)'', uni ''5B'', uni ''5B (Eb)'', uni ''7B'', uni ''7B (F)'']"
  "get_all_compatible_keys (Some (uni ''G#m'')) =
     [uni ''G#m'', uni ''C#m'', uni ''D#m'', uni ''B'', uni ''E'', uni ''F#'', uni ''1A'',
      uni ''1A (G#m)'', uni ''12A'', uni ''12A (C#m)'', uni ''2A'', uni ''2A (D#m)'', uni ''1B'',
      uni ''1B (B)'', uni ''12B'', uni ''12B (E)'', uni ''2B'', uni ''2B (F#)'', uni ''D#m/Ebm'',
      uni ''Ebm'', uni ''F#/Gb'', uni ''Gb'']"
  by (simp_all add: key_eval compat_eval del: map_of.simps(2) cong: map_of_weak_cong)


section \<open>Properties of the key model\<close>

text \<open>
  Every canonical key is left unchanged by \<open>normalize_key\<close>, and the Camelot code of
  every canonical key other than \<open>F#\<close> and \<open>D#m\<close> normalizes to that key.
\<close>

lemma normalize_canonical:
  "\<forall>K \<in> set canonical_keys. normalize_key (Some K) = Some K"
  unfolding canonical_keys_eq list.set ball_simps
  by (simp add: key_eval del: map_of.simps(2) cong: map_of_weak_cong)

lemma normalize_camelot_unambiguous:
  "\<forall>K \<in> set canonical_keys. K \<noteq> uni ''F#'' \<and> K \<noteq> uni ''D#m'' \<longrightarrow>
     normalize_key (map_of camelot_mapping K) = Some K"
  unfolding canonical_keys_eq list.set ball_simps
  by (simp add: key_eval camelot_mapping_lookup del: map_of.simps(2) cong: map_of_weak_cong)

text \<open>
  The flat spellings \<open>Gb\<close> and \<open>Ebm\<close> of the two ambiguous codes are fixed points as
  well, and they are what the Camelot codes \<open>2B\<close> and \<open>2A\<close> normalize to.
\<close>

lemma normalize_flat_spellings:
  "normalize_key (Some (uni ''Gb'')) = Some (uni ''Gb'')"
  "normalize_key (map_of camelot_mapping (uni ''Gb'')) = Some (uni ''Gb'')"
  "normalize_key (Some (uni ''Ebm'')) = Some (uni ''Ebm'')"
  "normalize_key (map_of camelot_mapping (uni ''Ebm'')) = Some (uni ''Ebm'')"
  by (simp_all add: key_eval camelot_mapping_lookup del: map_of.simps(2) cong: map_of_weak_cong)

text \<open>
  C1: for every canonical key \<open>K\<close>, \<open>normalize_key\<close> returns \<open>K\<close> on the traditional
  spelling of \<open>K\<close> and on the Camelot spelling of \<open>K\<close>.  The code breaks the second half
  at the canonical key \<open>F#\<close>: its Camelot spelling is \<open>2B\<close>, and \<open>normalize_key\<close> maps
  \<open>2B\<close> to \<open>Gb\<close>, because the reversed dict keeps the later of the two keys that
  \<open>camelot_mapping\<close> sends to \<open>2B\<close>.  (The same happens at \<open>D#m\<close> with \<open>2A\<close> and
  \<open>Ebm\<close>.)
\<close>

theorem normalize_camelot_of_F_sharp:
  "uni ''F#'' \<in> set canonical_keys \<and>
   normalize_key (Some (uni ''F#'')) = Some (uni ''F#'') \<and>
   map_of camelot_mapping (uni ''F#'') = Some (uni ''2B'') \<and>
   normalize_key (map_of camelot_mapping (uni ''F#'')) = Some (uni ''Gb'') \<and>
   normalize_key (map_of camelot_mapping (uni ''F#'')) \<noteq> Some (uni ''F#'')"
  unfolding canonical_keys_eq list.set
  by (simp add: key_eval camelot_mapping_lookup del: map_of.simps(2) cong: map_of_weak_cong)

text \<open>
  C10: the bare Camelot strings \<open>2B\<close> and \<open>2A\<close> normalize to the flat spellings \<open>Gb\<close>
  and \<open>Ebm\<close>, the combined strings \<open>2B (F#/Gb)\<close> and \<open>2A (D#m/Ebm)\<close> to the sharp
  spellings \<open>F#\<close> and \<open>D#m\<close>: two spellings of one Camelot code normalize to different
  keys.
\<close>

theorem normalize_ambiguous_camelot:
  "normalize_key (Some (uni ''2B'')) = Some (uni ''Gb'') \<and>
   normalize_key (Some (uni ''2A'')) = Some (uni ''Ebm'') \<and>
   normalize_key (Some (uni ''2B (F#/Gb)'')) = Some (uni ''F#'') \<and>
   normalize_key (Some (uni ''2A (D#m/Ebm)'')) = Some (uni ''D#m'') \<and>
   normalize_key (Some (uni ''2B'')) \<noteq> normalize_key (Some (uni ''2B (F#/Gb)'')) \<and>
   normalize_key (Some (uni ''2A'')) \<noteq> normalize_key (Some (uni ''2A (D#m/Ebm)''))"
  by (simp add: key_eval del: map_of.simps(2) cong: map_of_weak_cong)

text \<open>
  C2, as stated: whenever \<open>K2\<close> is among the compatible keys of \<open>K\<close>, \<open>K\<close> is among
  the compatible keys of \<open>K2\<close>.  This fails: \<open>G#\<close> is a compatible key of \<open>C#\<close>, but
  \<open>G#\<close> has no entry in \<open>harmonic_compatibility\<close>, so its only compatible key is
  itself.
\<close>

theorem compatible_keys_not_symmetric:
  "uni ''G#'' \<in> set (get_all_compatible_keys (Some (uni ''C#''))) \<and>
   uni ''C#'' \<notin> set (get_all_compatible_keys (Some (uni ''G#'')))"
  by (simp add: key_eval compat_eval del: map_of.simps(2) cong: map_of_weak_cong)

text \<open>
  C2, amended: compatibility is symmetric on the 24 canonical keys.  If \<open>K\<close> and \<open>K2\<close>
  are canonical keys and \<open>K2\<close> is among the compatible keys of \<open>K\<close>, then \<open>K\<close> is among
  the compatible keys of \<open>K2\<close>.
\<close>

theorem compatible_keys_symmetric_canonical:
  assumes "K \<in> set canonical_keys" and "K2 \<in> set canonical_keys"
    and "K2 \<in> set (get_all_compatible_keys (Some K))"
  shows "K \<in> set (get_all_compatible_keys (Some K2))"
proof -
  have "\<forall>K \<in> set canonical_keys. \<forall>K2 \<in> set canonical_keys.
          K2 \<in> set (get_all_compatible_keys (Some K)) \<longrightarrow>
          K \<in> set (get_all_compatible_keys (Some K2))"
    unfolding canonical_keys_eq list.set ball_simps get_all_canonical
    by (simp add: glyph_simps)
  with assms show ?thesis by blast
qed

theorem compatible_keys_symmetric_canonical_witness:
  "uni ''C'' \<in> set canonical_keys \<and> uni ''Am'' \<in> set canonical_keys \<and>
   uni ''Am'' \<in> set (get_all_compatible_keys (Some (uni ''C''))) \<and>
   uni ''C'' \<in> set (get_all_compatible_keys (Some (uni ''Am'')))"
proof -
  have 1: "uni ''C'' \<in> set canonical_keys" and 2: "uni ''Am'' \<in> set canonical_keys"
    unfolding canonical_keys_eq by simp_all
  have 3: "uni ''Am'' \<in> set (get_all_compatible_keys (Some (uni ''C'')))"
    unfolding get_all_canonical by simp
  from 1 2 3 compatible_keys_symmetric_canonical [OF 1 2 3] show ?thesis by blast
qed


section \<open>Properties of the compatibility query\<close>

lemma get_compatible_tracks_Some:
  "get_compatible_tracks (Some rows) current_bpm current_key bpm_tolerance =
     take 50 (sort_key (order_by current_key current_bpm)
       (filter (where_clause (current_bpm - bpm_tolerance) (current_bpm + bpm_tolerance)
          (if get_all_compatible_keys current_key = [] then [current_key]
           else map Some (get_all_compatible_keys current_key))) rows))"
  by (simp add: get_compatible_tracks_def Let_def)

lemma get_compatible_tracks_subset:
  "set (get_compatible_tracks library current_bpm current_key bpm_tolerance) \<subseteq>
     (case library of None \<Rightarrow> {} | Some rows \<Rightarrow>
        {row \<in> set rows. where_clause (current_bpm - bpm_tolerance) (current_bpm + bpm_tolerance)
          (if get_all_compatible_keys current_key = [] then [current_key]
           else map Some (get_all_compatible_keys current_key)) row})"
proof (cases library)
  case None
  then show ?thesis by (simp add: get_compatible_tracks_def)
next
  case (Some rows)
  show ?thesis
    unfolding Some get_compatible_tracks_Some option.case
    using set_take_subset by fastforce
qed

lemma get_compatible_tracks_sorted:
  "sorted (map (order_by current_key current_bpm)
     (get_compatible_tracks library current_bpm current_key bpm_tolerance))"
proof (cases library)
  case None
  then show ?thesis by (simp add: get_compatible_tracks_def)
next
  case (Some rows)
  show ?thesis
    unfolding Some get_compatible_tracks_Some take_map [symmetric]
    by (intro sorted_wrt_take sorted_sort_key)
qed

lemma key_rank_selected:
  assumes "where_clause lo hi ks row"
  shows "key_rank current_key row = (if key row = current_key then 0 else 1)"
  using assms by (auto simp: where_clause_def key_rank_def split: option.splits)

lemma get_all_8B:
  "get_all_compatible_keys (Some (uni ''8B'')) =
     [uni ''C'', uni ''F'', uni ''G'', uni ''Am'', uni ''Dm'', uni ''Em'', uni ''8B'',
      uni ''8B (C)'', uni ''7B'', uni ''7B (F)'', uni ''9B'', uni ''9B (G)'', uni ''8A'',
      uni ''8A (Am)'', uni ''7A'', uni ''7A (Dm)'', uni ''9A'', uni ''9A (Em)'']"
  by (simp add: key_eval compat_eval del: map_of.simps(2) cong: map_of_weak_cong)

lemmas query_eval = where_clause_def order_by_def key_rank_def bpm_distance_def example_row_def
  glyph_simps

text \<open>
  C3, as stated: with a catalog row stored as \<open>F#m\<close> and the query key \<open>F#\<close>, the
  query returns the row.  This fails: the compatible keys of \<open>F#\<close> are \<open>F#\<close>, \<open>B\<close>,
  \<open>C#\<close>, \<open>D#m\<close>, \<open>G#m\<close> and \<open>A#m\<close> in their spellings, and \<open>F#m\<close> is none of
  them, so the \<open>WHERE\<close> clause rejects the row.
\<close>

theorem parallel_minor_not_found:
  "key (example_row (uni ''F#m'') 120) = Some (uni ''F#m'') \<and>
   get_compatible_tracks (Some [example_row (uni ''F#m'') 120]) 120 (Some (uni ''F#'')) 2 = []"
  unfolding get_compatible_tracks_Some get_all_canonical
  by (simp add: query_eval)

lemma compatible_with_F_sharp:
  "uni ''D#m'' \<in> set (get_all_compatible_keys (Some (uni ''F#'')))"
  "uni ''F#m'' \<notin> set (get_all_compatible_keys (Some (uni ''F#'')))"
  "get_all_compatible_keys (Some (uni ''F#'')) \<noteq> []"
  unfolding get_all_canonical by (simp_all add: glyph_simps)

lemma relative_minor_good:
  "compatibility (Some (uni ''F#'')) (Some (uni ''D#m'')) = Good"
proof -
  have "normalize_key (Some (uni ''F#'')) = Some (uni ''F#'')"
    and "normalize_key (Some (uni ''D#m'')) = Some (uni ''D#m'')"
    by (simp_all add: key_eval del: map_of.simps(2) cong: map_of_weak_cong)
  moreover have "uni ''D#m'' \<noteq> uni ''F#''"
    by (simp add: glyph_simps)
  ultimately show ?thesis
    using compatible_with_F_sharp(1) by (simp add: compatibility_def)
qed

text \<open>
  C3, amended: with the query key \<open>F#\<close>, a catalog row stored as \<open>D#m\<close> (the relative
  minor of \<open>F#\<close>) that is not deleted and whose tempo is within the tolerance is
  returned, provided at most 50 rows of the catalog match the query, and it is tagged
  \<open>Good\<close>.  No row stored as \<open>F#m\<close> is returned.
\<close>

theorem relative_minor_found:
  assumes "row \<in> set rows" and "key row = Some (uni ''D#m'')" and "mixxx_deleted row = Some 0"
    and "bpm row = Some b" and "current_bpm - bpm_tolerance \<le> b"
    and "b \<le> current_bpm + bpm_tolerance"
    and "length (filter (where_clause (current_bpm - bpm_tolerance) (current_bpm + bpm_tolerance)
           (map Some (get_all_compatible_keys (Some (uni ''F#''))))) rows) \<le> 50"
  shows "row \<in> set (get_compatible_tracks (Some rows) current_bpm (Some (uni ''F#''))
           bpm_tolerance) \<and>
         compatibility (Some (uni ''F#'')) (key row) = Good \<and>
         (\<forall>r \<in> set (get_compatible_tracks (Some rows) current_bpm (Some (uni ''F#''))
            bpm_tolerance). key r \<noteq> Some (uni ''F#m''))"
proof -
  let ?ks = "map Some (get_all_compatible_keys (Some (uni ''F#'')))"
  let ?sel = "filter (where_clause (current_bpm - bpm_tolerance) (current_bpm + bpm_tolerance) ?ks)
    rows"
  let ?res = "get_compatible_tracks (Some rows) current_bpm (Some (uni ''F#'')) bpm_tolerance"
  have res: "?res = take 50 (sort_key (order_by (Some (uni ''F#'')) current_bpm) ?sel)"
    by (simp only: get_compatible_tracks_Some compatible_with_F_sharp(3) if_False)
  have "where_clause (current_bpm - bpm_tolerance) (current_bpm + bpm_tolerance) ?ks row"
    using assms(2-6) compatible_with_F_sharp(1) by (simp add: where_clause_def)
  with assms(1) have "row \<in> set ?sel"
    by simp
  moreover have "set ?res = set ?sel"
    unfolding res using assms(7) by simp
  ultimately have 1: "row \<in> set ?res"
    by simp
  have 2: "compatibility (Some (uni ''F#'')) (key row) = Good"
    unfolding assms(2) by (rule relative_minor_good)
  have 3: "key r \<noteq> Some (uni ''F#m'')" if "r \<in> set ?res" for r
  proof -
    from that have "r \<in> set ?sel"
      unfolding res using set_take_subset by fastforce
    then have "where_clause (current_bpm - bpm_tolerance) (current_bpm + bpm_tolerance) ?ks r"
      by simp
    then show ?thesis
      using compatible_with_F_sharp(2) by (auto simp: where_clause_def split: option.splits)
  qed
  from 1 2 3 show ?thesis by blast
qed

theorem relative_minor_found_witness:
  "example_row (uni ''D#m'') 121 \<in>
     set (get_compatible_tracks (Some [example_row (uni ''D#m'') 121]) 120 (Some (uni ''F#'')) 2) \<and>
   compatibility (Some (uni ''F#'')) (key (example_row (uni ''D#m'') 121)) = Good"
proof -
  let ?row = "example_row (uni ''D#m'') 121"
  have "?row \<in> set [?row]" and "key ?row = Some (uni ''D#m'')"
    and "mixxx_deleted ?row = Some 0" and "bpm ?row = Some 121"
    and "(120::real) - 2 \<le> 121" and "(121::real) \<le> 120 + 2"
    and "length (filter (where_clause (120 - 2) (120 + 2)
           (map Some (get_all_compatible_keys (Some (uni ''F#''))))) [?row]) \<le> 50"
    by (simp_all add: example_row_def)
  from relative_minor_found [OF this] show ?thesis by blast
qed

text \<open>
  C4, as stated: rows whose key equals the query key after normalization sort before
  all other rows.  This fails: the \<open>ORDER BY\<close> term compares the stored key with the
  query key as it was typed.  For the query key \<open>8B\<close>, a row stored as \<open>C\<close> normalizes
  to the same key as the query, but it is ranked with the other compatible rows, and a
  row stored as \<open>F\<close> with a closer tempo comes before it.
\<close>

theorem literal_key_match_only:
  "get_compatible_tracks (Some [example_row (uni ''C'') 121, example_row (uni ''F'') 120]) 120
     (Some (uni ''8B'')) 2 =
     [example_row (uni ''F'') 120, example_row (uni ''C'') 121] \<and>
   normalize_key (key (example_row (uni ''C'') 121)) = normalize_key (Some (uni ''8B'')) \<and>
   normalize_key (key (example_row (uni ''F'') 120)) \<noteq> normalize_key (Some (uni ''8B''))"
proof -
  have "get_compatible_tracks (Some [example_row (uni ''C'') 121, example_row (uni ''F'') 120]) 120
     (Some (uni ''8B'')) 2 =
     [example_row (uni ''F'') 120, example_row (uni ''C'') 121]"
    unfolding get_compatible_tracks_Some get_all_8B
    by (simp add: query_eval)
  moreover have "normalize_key (key (example_row (uni ''C'') 121)) =
      normalize_key (Some (uni ''8B''))"
    and "normalize_key (key (example_row (uni ''F'') 120)) \<noteq> normalize_key (Some (uni ''8B''))"
    by (simp_all add: example_row_def key_eval del: map_of.simps(2) cong: map_of_weak_cong)
  ultimately show ?thesis by blast
qed

text \<open>
  C4, amended: a query returns at most 50 rows; rows whose stored key is literally the
  query key come before all other rows; and within each of the two groups the rows are
  in ascending order of their absolute tempo distance from the query tempo.
\<close>

theorem get_compatible_tracks_ordered:
  fixes library current_bpm current_key bpm_tolerance
  defines "res \<equiv> get_compatible_tracks library current_bpm current_key bpm_tolerance"
  shows "length res \<le> 50 \<and>
         (\<forall>i j. i < j \<and> j < length res \<longrightarrow>
            (key (res ! j) = current_key \<longrightarrow> key (res ! i) = current_key) \<and>
            ((key (res ! i) = current_key \<longleftrightarrow> key (res ! j) = current_key) \<longrightarrow>
               bpm_distance current_bpm (res ! i) \<le> bpm_distance current_bpm (res ! j)))"
proof -
  have len: "length res \<le> 50"
    by (cases library) (simp_all add: res_def get_compatible_tracks_def Let_def)
  have rank: "key_rank current_key row = (if key row = current_key then 0 else 1)"
    if "row \<in> set res" for row
  proof -
    from that get_compatible_tracks_subset [of library current_bpm current_key bpm_tolerance]
    obtain lo hi ks where "where_clause lo hi ks row"
      unfolding res_def by (cases library) auto
    then show ?thesis by (rule key_rank_selected)
  qed
  have ord: "(key (res ! j) = current_key \<longrightarrow> key (res ! i) = current_key) \<and>
      ((key (res ! i) = current_key \<longleftrightarrow> key (res ! j) = current_key) \<longrightarrow>
         bpm_distance current_bpm (res ! i) \<le> bpm_distance current_bpm (res ! j))"
    if "i < j" "j < length res" for i j
  proof -
    from that have i: "res ! i \<in> set res" and j: "res ! j \<in> set res"
      by simp_all
    have "sorted (map (order_by current_key current_bpm) res)"
      unfolding res_def by (rule get_compatible_tracks_sorted)
    with that have "order_by current_key current_bpm (res ! i) \<le>
        order_by current_key current_bpm (res ! j)"
      by (simp add: sorted_iff_nth_mono)
    then show ?thesis
      unfolding order_by_def rank [OF i] rank [OF j]
      by (auto simp: less_eq_prod_def split: if_splits)
  qed
  from len ord show ?thesis by blast
qed

theorem get_compatible_tracks_ordered_witness:
  "length (get_compatible_tracks
     (Some [example_row (uni ''Am'') 121, example_row (uni ''C'') 122, example_row (uni ''F'') 120])
     120 (Some (uni ''C'')) 2) = 3 \<and>
   key (get_compatible_tracks
     (Some [example_row (uni ''Am'') 121, example_row (uni ''C'') 122, example_row (uni ''F'') 120])
     120 (Some (uni ''C'')) 2 ! 0) = Some (uni ''C'') \<and>
   bpm_distance 120 (get_compatible_tracks
     (Some [example_row (uni ''Am'') 121, example_row (uni ''C'') 122, example_row (uni ''F'') 120])
     120 (Some (uni ''C'')) 2 ! 1) \<le>
   bpm_distance 120 (get_compatible_tracks
     (Some [example_row (uni ''Am'') 121, example_row (uni ''C'') 122, example_row (uni ''F'') 120])
     120 (Some (uni ''C'')) 2 ! 2)"
proof -
  let ?lib = "Some [example_row (uni ''Am'') 121, example_row (uni ''C'') 122,
    example_row (uni ''F'') 120]"
  let ?res = "get_compatible_tracks ?lib 120 (Some (uni ''C'')) 2"
  have res: "?res = [example_row (uni ''C'') 122, example_row (uni ''F'') 120,
      example_row (uni ''Am'') 121]"
    unfolding get_compatible_tracks_Some get_all_canonical
    by (simp add: query_eval)
  have len: "length ?res = 3" and first: "key (?res ! 0) = Some (uni ''C'')"
    and group: "key (?res ! 1) = Some (uni ''C'') \<longleftrightarrow> key (?res ! 2) = Some (uni ''C'')"
    unfolding res by (simp_all add: example_row_def glyph_simps)
  have "(1::nat) < 2 \<and> 2 < length ?res"
    unfolding len by simp
  with get_compatible_tracks_ordered [of ?lib 120 "Some (uni ''C'')" 2] group
  have "bpm_distance 120 (?res ! 1) \<le> bpm_distance 120 (?res ! 2)"
    by blast
  with len first show ?thesis by blast
qed

section \<open>Properties of the fingerprint\<close>

text \<open>
  C8, as stated: \<open>get_file_hash\<close> succeeds on every readable file shorter than 128 KiB.
  This fails for a readable file of three bytes: the seek to 65536 bytes before the end
  raises, and the function returns \<open>None\<close>.
\<close>

theorem small_file_has_no_hash:
  "length ''abc'' < 131072 \<and> get_file_hash (\<lambda>bytes. ''d41d8cd9'') (Some ''abc'') = None"
  by (simp add: get_file_hash_def)

text \<open>
  C8, amended: \<open>get_file_hash\<close> returns \<open>None\<close> exactly when the file cannot be opened
  or has fewer than 65536 bytes.  For a readable file of at least 65536 bytes it returns
  the digest of the first 65536 bytes followed by the last 65536 bytes; when the file has
  at most 131072 bytes the two reads overlap and together hold every byte of the file.
\<close>

theorem get_file_hash_result:
  "(get_file_hash digest file = None \<longleftrightarrow>
      file = None \<or> (\<exists>bytes. file = Some bytes \<and> length bytes < 65536)) \<and>
   (file = Some bytes \<and> 65536 \<le> length bytes \<longrightarrow>
      get_file_hash digest file =
        Some (digest (take 65536 bytes @ drop (length bytes - 65536) bytes)) \<and>
      (length bytes \<le> 131072 \<longrightarrow>
         take 65536 bytes @ drop (131072 - length bytes) (drop (length bytes - 65536) bytes) =
         bytes))"
proof -
  have "drop (131072 - length bytes) (drop (length bytes - 65536) bytes) = drop 65536 bytes"
    if "65536 \<le> length bytes" "length bytes \<le> 131072"
    using that by simp
  then show ?thesis
    by (cases "file") (auto simp: get_file_hash_def Let_def)
qed

theorem get_file_hash_result_witness:
  "get_file_hash (\<lambda>bytes. ''d41d8cd9'') (Some (replicate 65536 (CHR ''a''))) = Some ''d41d8cd9''"
proof -
  let ?bytes = "replicate 65536 (CHR ''a'')"
  have "Some ?bytes = Some ?bytes \<and> 65536 \<le> length ?bytes"
    by (simp only: length_replicate) simp
  with get_file_hash_result [of "\<lambda>bytes. ''d41d8cd9''" "Some ?bytes" ?bytes]
  show ?thesis by blast
qed

section \<open>Properties of the scan\<close>

subsection \<open>One step of the loop\<close>


lemma scan_file_files_found:
  "files_found (scan_file env p st) =
     files_found st + (if stat env p \<noteq> None \<and> encodable p then 1 else 0)"
  by (auto simp: scan_file_def Let_def split: option.splits prod.splits if_splits)

lemma scan_file_table:
  "scanned_files (scan_file env p st) = scanned_files st \<or>
   (\<exists>fsize mtime a. stat env p = Some (fsize, mtime) \<and> analyze_audio_file env p = Some a \<and>
      scanned_files (scan_file env p st) = (scanned_files st)(p \<mapsto>
        \<lparr>file_hash = get_file_hash (md5 env) (contents env p), file_size = fsize,
         last_modified = mtime, metadata = a\<rparr>))"
  by (auto simp: scan_file_def Let_def split: option.splits prod.splits if_splits)

lemma scan_file_dom: "dom (scanned_files st) \<subseteq> dom (scanned_files (scan_file env p st))"
  using scan_file_table [of env p st] by auto

lemma scan_file_untouched:
  "analyze_audio_file env q = None \<or> q \<noteq> p \<Longrightarrow>
   scanned_files (scan_file env p st) q = scanned_files st q"
  using scan_file_table [of env p st] by auto

lemma fold_scan_file_dom:
  "dom (scanned_files st) \<subseteq> dom (scanned_files (fold (scan_file env) xs st))"
proof (induction xs arbitrary: st)
  case Nil
  show ?case by simp
next
  case (Cons x xs)
  have "dom (scanned_files st) \<subseteq> dom (scanned_files (scan_file env x st))"
    by (rule scan_file_dom)
  also have "\<dots> \<subseteq> dom (scanned_files (fold (scan_file env) xs (scan_file env x st)))"
    by (rule Cons.IH)
  finally show ?case by simp
qed

lemma fold_scan_file_untouched:
  "analyze_audio_file env q = None \<Longrightarrow>
   scanned_files (fold (scan_file env) xs st) q = scanned_files st q"
  by (induction xs arbitrary: st) (simp_all add: scan_file_untouched)

lemma fold_scan_file_files_found:
  "files_found (fold (scan_file env) xs st) =
   files_found st + length (filter (\<lambda>p. stat env p \<noteq> None \<and> encodable p) xs)"
  by (induction xs arbitrary: st) (simp_all add: scan_file_files_found)

lemma scan_file_not_needed:
  assumes "\<not> needs_analysis env (scanned_files st) p"
  shows "scanned_files (scan_file env p st) = scanned_files st"
    and "new_files (scan_file env p st) = new_files st"
    and "updated_files (scan_file env p st) = updated_files st"
  using assms
  by (auto simp: scan_file_def needs_analysis_def Let_def split: option.splits prod.splits if_splits)

lemma scan_file_needed_failed:
  assumes "needs_analysis env (scanned_files st) p" and "analyze_audio_file env p = None"
  shows "scanned_files (scan_file env p st) = scanned_files st"
    and "scanned_files st p = None \<Longrightarrow>
         new_files (scan_file env p st) = new_files st + 1 \<and>
         updated_files (scan_file env p st) = updated_files st"
    and "scanned_files st p \<noteq> None \<Longrightarrow>
         new_files (scan_file env p st) = new_files st \<and>
         updated_files (scan_file env p st) = updated_files st + 1"
  using assms
  by (auto simp: scan_file_def needs_analysis_def Let_def split: option.splits prod.splits if_splits)

lemma scan_file_settles:
  assumes "analyze_audio_file env p \<noteq> None \<or> \<not> needs_analysis env (scanned_files st) p"
  shows "\<not> needs_analysis env (scanned_files (scan_file env p st)) p"
  using assms
  by (auto simp: scan_file_def needs_analysis_def Let_def split: option.splits prod.splits if_splits)

lemma needs_analysis_table_cong: "t q = t' q \<Longrightarrow> needs_analysis env t q = needs_analysis env t' q"
  by (simp add: needs_analysis_def split: option.splits prod.splits)

lemma scan_file_keeps_settled:
  assumes "\<not> needs_analysis env (scanned_files st) q"
  shows "\<not> needs_analysis env (scanned_files (scan_file env p st)) q"
proof (cases "q = p")
  case True
  have "\<not> needs_analysis env (scanned_files (scan_file env q st)) q"
    using assms by (intro scan_file_settles disjI2)
  then show ?thesis unfolding True .
next
  case False
  then have "scanned_files (scan_file env p st) q = scanned_files st q"
    by (intro scan_file_untouched disjI2)
  then have "needs_analysis env (scanned_files (scan_file env p st)) q = needs_analysis env (scanned_files st) q"
    by (rule needs_analysis_table_cong)
  with assms show ?thesis by blast
qed

lemma fold_keeps_settled:
  "\<not> needs_analysis env (scanned_files st) q \<Longrightarrow>
   \<not> needs_analysis env (scanned_files (fold (scan_file env) xs st)) q"
  by (induction xs arbitrary: st) (simp_all add: scan_file_keeps_settled)

lemma fold_settles:
  assumes "\<forall>p \<in> set xs. analyze_audio_file env p \<noteq> None \<or> \<not> needs_analysis env (scanned_files st) p"
  shows "\<forall>p \<in> set xs. \<not> needs_analysis env (scanned_files (fold (scan_file env) xs st)) p"
  using assms
proof (induction xs arbitrary: st)
  case Nil
  show ?case by simp
next
  case (Cons x xs)
  let ?st = "scan_file env x st"
  have x: "\<not> needs_analysis env (scanned_files ?st) x"
    using Cons.prems by (simp add: scan_file_settles)
  have "\<forall>p \<in> set xs. analyze_audio_file env p \<noteq> None \<or> \<not> needs_analysis env (scanned_files ?st) p"
    using Cons.prems scan_file_keeps_settled [of env st _ x] by auto
  then have "\<forall>p \<in> set xs. \<not> needs_analysis env (scanned_files (fold (scan_file env) xs ?st)) p"
    by (rule Cons.IH)
  moreover have "\<not> needs_analysis env (scanned_files (fold (scan_file env) xs ?st)) x"
    using x by (rule fold_keeps_settled)
  ultimately show ?case by simp
qed

lemma needs_analysis_cong:
  "md5 env2 = md5 env \<Longrightarrow> stat env2 = stat env \<Longrightarrow> contents env2 = contents env \<Longrightarrow>
   needs_analysis env2 table p = needs_analysis env table p"
  by (simp add: needs_analysis_def split: option.splits prod.splits)

lemma fold_not_needed:
  assumes "\<forall>p \<in> set xs. \<not> needs_analysis env (scanned_files st) p"
  shows "scanned_files (fold (scan_file env) xs st) = scanned_files st \<and>
         new_files (fold (scan_file env) xs st) = new_files st \<and>
         updated_files (fold (scan_file env) xs st) = updated_files st"
  using assms
  by (induction xs arbitrary: st) (simp_all add: scan_file_not_needed)

lemmas scan_eval = scan_music_library_def scan_loop_def scan_file_def example_env_def
  empty_db_def get_file_hash_def glyph_def Let_def bad_name_def encodable_def

subsection \<open>Scanning twice\<close>

text \<open>
  C5: if every file that the first scan flags for analysis is analysed successfully, a
  second scan of the same files, with the same sizes, modification times and contents,
  reports no new and no updated file and finds as many files as the first.  The second
  scan may use any metadata probe: it never calls it.
\<close>

theorem rescan_unchanged:
  assumes ok: "\<forall>p \<in> set audio_files.
                 needs_analysis env (db_scanned_files db) p \<longrightarrow> analyze_audio_file env p \<noteq> None"
    and first: "scan_music_library env d1 db audio_files = (r1, db1)"
    and second:
      "scan_music_library (env\<lparr>analyze_audio_file := probe\<rparr>) d2 db1 audio_files = (r2, db2)"
  shows "session_new_files r2 = 0 \<and> session_updated_files r2 = 0 \<and>
         session_files_found r2 = session_files_found r1"
proof -
  let ?env2 = "env\<lparr>analyze_audio_file := probe\<rparr>"
  let ?st0 = "\<lparr>scanned_files = db_scanned_files db, files_found = 0, new_files = 0,
               updated_files = 0\<rparr>"
  let ?st1 = "fold (scan_file env) audio_files ?st0"
  let ?st0' = "\<lparr>scanned_files = db_scanned_files db1, files_found = 0, new_files = 0,
                updated_files = 0\<rparr>"
  let ?st2 = "fold (scan_file ?env2) audio_files ?st0'"
  have db1: "db_scanned_files db1 = scanned_files ?st1"
    and r1: "session_files_found r1 = files_found ?st1"
    using first by (auto simp: scan_music_library_def scan_loop_def Let_def)
  have r2: "session_new_files r2 = new_files ?st2" "session_updated_files r2 = updated_files ?st2"
    "session_files_found r2 = files_found ?st2"
    using second by (auto simp: scan_music_library_def scan_loop_def Let_def)
  have "\<forall>p \<in> set audio_files. \<not> needs_analysis env (scanned_files ?st1) p"
    by (rule fold_settles) (use ok in auto)
  moreover have "needs_analysis ?env2 (scanned_files ?st1) p = needs_analysis env (scanned_files ?st1) p" for p
    by (rule needs_analysis_cong) simp_all
  ultimately have "\<forall>p \<in> set audio_files. \<not> needs_analysis ?env2 (scanned_files ?st0') p"
    by (simp add: db1)
  then have "new_files ?st2 = 0 \<and> updated_files ?st2 = 0"
    using fold_not_needed [of audio_files ?env2 ?st0'] by simp
  moreover have "files_found ?st2 = files_found ?st1"
    by (simp add: fold_scan_file_files_found)
  ultimately show ?thesis by (simp add: r1 r2)
qed

theorem rescan_unchanged_witness:
  "session_files_found
     (fst (scan_music_library (example_env (Some ''abc'') (\<lambda>p. Some no_tags)) 1 empty_db
        [uni ''A'', uni ''C''])) = 1 \<and>
   session_new_files
     (fst (scan_music_library (example_env (Some ''abc'') (\<lambda>p. Some no_tags)) 1 empty_db
        [uni ''A'', uni ''C''])) = 1 \<and>
   session_new_files
     (fst (scan_music_library
        ((example_env (Some ''abc'') (\<lambda>p. Some no_tags))\<lparr>analyze_audio_file := \<lambda>p. None\<rparr>) 1
        (snd (scan_music_library (example_env (Some ''abc'') (\<lambda>p. Some no_tags)) 1 empty_db
           [uni ''A'', uni ''C'']))
        [uni ''A'', uni ''C''])) = 0 \<and>
   session_updated_files
     (fst (scan_music_library
        ((example_env (Some ''abc'') (\<lambda>p. Some no_tags))\<lparr>analyze_audio_file := \<lambda>p. None\<rparr>) 1
        (snd (scan_music_library (example_env (Some ''abc'') (\<lambda>p. Some no_tags)) 1 empty_db
           [uni ''A'', uni ''C'']))
        [uni ''A'', uni ''C''])) = 0 \<and>
   session_files_found
     (fst (scan_music_library
        ((example_env (Some ''abc'') (\<lambda>p. Some no_tags))\<lparr>analyze_audio_file := \<lambda>p. None\<rparr>) 1
        (snd (scan_music_library (example_env (Some ''abc'') (\<lambda>p. Some no_tags)) 1 empty_db
           [uni ''A'', uni ''C'']))
        [uni ''A'', uni ''C''])) = 1"
proof -
  let ?env = "example_env (Some ''abc'') (\<lambda>p. Some no_tags)"
  let ?files = "[uni ''A'', uni ''C'']"
  let ?first = "scan_music_library ?env 1 empty_db ?files"
  let ?second = "scan_music_library (?env\<lparr>analyze_audio_file := \<lambda>p. None\<rparr>) 1 (snd ?first) ?files"
  have ok: "\<forall>p \<in> set ?files.
      needs_analysis ?env (db_scanned_files empty_db) p \<longrightarrow> analyze_audio_file ?env p \<noteq> None"
    by (simp add: example_env_def)
  have 1: "session_files_found (fst ?first) = 1 \<and> session_new_files (fst ?first) = 1"
    by (simp add: scan_eval)
  have "?first = (fst ?first, snd ?first)" and "?second = (fst ?second, snd ?second)"
    by simp_all
  from rescan_unchanged [OF ok this] 1 show ?thesis by simp
qed

subsection \<open>Failed analysis\<close>

text \<open>
  C6, as stated: a flagged file whose analysis fails is not counted in \<open>new_files\<close> or
  \<open>updated_files\<close>.  This fails: the counters are incremented before the analysis runs.
  A scan of one file without a row, whose analysis fails, reports one new file.
\<close>

theorem failed_analysis_still_counted:
  "needs_analysis (example_env (Some ''abc'') (\<lambda>p. None)) (db_scanned_files empty_db) (uni ''A'') \<and>
   analyze_audio_file (example_env (Some ''abc'') (\<lambda>p. None)) (uni ''A'') = None \<and>
   session_new_files
     (fst (scan_music_library (example_env (Some ''abc'') (\<lambda>p. None)) 1 empty_db [uni ''A''])) = 1"
  by (simp add: scan_eval needs_analysis_def)

text \<open>
  C6, amended: if the analysis of a path fails, the scan leaves the row of that path
  as it was (or absent), and the step for that path leaves the whole table unchanged;
  the file is still counted, in \<open>new_files\<close> when it has no row and in \<open>updated_files\<close>
  when it has one.
\<close>

theorem failed_analysis:
  assumes "analyze_audio_file env p = None"
  shows "db_scanned_files (snd (scan_music_library env d db audio_files)) p =
           db_scanned_files db p \<and>
         (needs_analysis env (scanned_files st) p \<longrightarrow>
            scanned_files (scan_file env p st) = scanned_files st \<and>
            (scanned_files st p = None \<longrightarrow>
               new_files (scan_file env p st) = new_files st + 1 \<and>
               updated_files (scan_file env p st) = updated_files st) \<and>
            (scanned_files st p \<noteq> None \<longrightarrow>
               new_files (scan_file env p st) = new_files st \<and>
               updated_files (scan_file env p st) = updated_files st + 1))"
proof -
  have "db_scanned_files (snd (scan_music_library env d db audio_files)) p =
        db_scanned_files db p"
    using fold_scan_file_untouched [OF assms]
    by (simp add: scan_music_library_def scan_loop_def Let_def)
  with scan_file_needed_failed [OF _ assms, of st] show ?thesis by blast
qed

theorem failed_analysis_witness:
  "analyze_audio_file (example_env (Some ''abc'') (\<lambda>p. None)) (uni ''Z'') = None \<and>
   needs_analysis (example_env (Some ''abc'') (\<lambda>p. None)) (db_scanned_files empty_db) (uni ''A'') \<and>
   db_scanned_files
     (snd (scan_music_library (example_env (Some ''abc'') (\<lambda>p. None)) 1 stale_db [uni ''A'']))
     (uni ''Z'') = db_scanned_files stale_db (uni ''Z'') \<and>
   new_files (scan_file (example_env (Some ''abc'') (\<lambda>p. None)) (uni ''A'')
     \<lparr>scanned_files = Map.empty, files_found = 0, new_files = 0, updated_files = 0\<rparr>) = 1"
proof -
  let ?env = "example_env (Some ''abc'') (\<lambda>p. None)"
  let ?st = "\<lparr>scanned_files = Map.empty, files_found = 0, new_files = 0, updated_files = 0\<rparr>"
  have 1: "analyze_audio_file ?env (uni ''Z'') = None"
    and 2: "analyze_audio_file ?env (uni ''A'') = None"
    by (simp_all add: example_env_def)
  have 3: "needs_analysis ?env (scanned_files ?st) (uni ''A'')"
    by (simp add: needs_analysis_def example_env_def encodable_def glyph_def)
  have 4: "scanned_files ?st (uni ''A'') = None"
    by simp
  from failed_analysis [OF 1, of 1 stale_db "[uni ''A'']" ?st]
    failed_analysis [OF 2, of 1 stale_db "[uni ''A'']" ?st] 1 3 4
  show ?thesis by (simp add: empty_db_def)
qed

subsection \<open>Unreadable files\<close>




subsection \<open>No deletion\<close>

text \<open>
  C9: every path that has a row in \<open>scanned_files\<close> before a scan has one after it,
  whether or not the path is among the scanned files or still exists.
\<close>

theorem scan_never_deletes:
  assumes "p \<in> dom (db_scanned_files db)"
  shows "p \<in> dom (db_scanned_files (snd (scan_music_library env d db audio_files)))"
proof -
  let ?st = "\<lparr>scanned_files = db_scanned_files db, files_found = 0, new_files = 0,
              updated_files = 0\<rparr>"
  have "dom (scanned_files ?st) \<subseteq> dom (scanned_files (fold (scan_file env) audio_files ?st))"
    by (rule fold_scan_file_dom)
  with assms show ?thesis
    by (auto simp: scan_music_library_def scan_loop_def Let_def)
qed

theorem scan_never_deletes_witness:
  "uni ''Z'' \<in> dom (db_scanned_files stale_db) \<and>
   stat (example_env (Some ''abc'') (\<lambda>p. Some no_tags)) (uni ''Z'') = None \<and>
   uni ''Z'' \<in> dom (db_scanned_files
     (snd (scan_music_library (example_env (Some ''abc'') (\<lambda>p. Some no_tags)) 1 stale_db
        [uni ''A''])))"
proof -
  have 1: "uni ''Z'' \<in> dom (db_scanned_files stale_db)"
    by (simp add: stale_db_def)
  have 2: "stat (example_env (Some ''abc'') (\<lambda>p. Some no_tags)) (uni ''Z'') = None"
    by (simp add: example_env_def glyph_def bad_name_def)
  from scan_never_deletes [OF 1] 1 2 show ?thesis by blast
qed

end
